theory Spec2Isabelle
  imports Complex_Main
begin

section \<open>Numbers\<close>

text \<open>
  The program computes with JavaScript numbers, which are doubles. The model takes the
  finite ones as reals with exact arithmetic: rounding is not part of it, and a
  statement that holds here only because no operation rounds does not carry over to
  the program. The numbers a caller passes as options are finite (\<open>real\<close>). A
  computed number can still leave the finite range without any rounding, because
  \<open>0 ** y\<close> is \<open>Infinity\<close> for a negative \<open>y\<close>; computed numbers therefore have the
  type \<open>number\<close>, whose operations follow the language on the infinities and on
  \<open>NaN\<close>.
\<close>

datatype number = Fin real | PInf | NInf | NaN

definition signed_inf :: "real \<Rightarrow> number" where
  "signed_inf s = (if 0 < s then PInf else if s < 0 then NInf else NaN)"

text \<open>The binary operator \<open>-\<close>.\<close>

fun js_sub :: "number \<Rightarrow> number \<Rightarrow> number" where
  "js_sub (Fin a) (Fin b) = Fin (a - b)"
| "js_sub NaN _ = NaN"
| "js_sub _ NaN = NaN"
| "js_sub (Fin a) PInf = NInf"
| "js_sub (Fin a) NInf = PInf"
| "js_sub PInf PInf = NaN"
| "js_sub PInf _ = PInf"
| "js_sub NInf NInf = NaN"
| "js_sub NInf _ = NInf"

text \<open>The binary operator \<open>*\<close>.\<close>

fun js_mul :: "number \<Rightarrow> number \<Rightarrow> number" where
  "js_mul (Fin a) (Fin b) = Fin (a * b)"
| "js_mul NaN _ = NaN"
| "js_mul _ NaN = NaN"
| "js_mul (Fin a) PInf = signed_inf a"
| "js_mul (Fin a) NInf = signed_inf (- a)"
| "js_mul PInf (Fin b) = signed_inf b"
| "js_mul NInf (Fin b) = signed_inf (- b)"
| "js_mul PInf PInf = PInf"
| "js_mul PInf NInf = NInf"
| "js_mul NInf PInf = NInf"
| "js_mul NInf NInf = PInf"

text \<open>
  The operator \<open>**\<close> on two finite numbers: any number to the power 0 is 1, 0 to a
  positive power is 0, 0 to a negative power is \<open>Infinity\<close>, and a negative base with
  a fractional exponent gives \<open>NaN\<close>.
\<close>

definition js_pow :: "real \<Rightarrow> real \<Rightarrow> number" where
  "js_pow x y =
     (if y = 0 then Fin 1
      else if 0 < x then Fin (x powr y)
      else if x = 0 then (if 0 < y then Fin 0 else PInf)
      else if of_int \<lfloor>y\<rfloor> = y
        then Fin ((if even \<lfloor>y\<rfloor> then 1 else - 1) * ((- x) powr y))
      else NaN)"

text \<open>\<open>Math.max\<close> and \<open>Math.min\<close> of two numbers.\<close>

fun js_max :: "number \<Rightarrow> number \<Rightarrow> number" where
  "js_max (Fin a) (Fin b) = Fin (max a b)"
| "js_max NaN _ = NaN"
| "js_max _ NaN = NaN"
| "js_max PInf _ = PInf"
| "js_max _ PInf = PInf"
| "js_max NInf b = b"
| "js_max a NInf = a"

fun js_min :: "number \<Rightarrow> number \<Rightarrow> number" where
  "js_min (Fin a) (Fin b) = Fin (min a b)"
| "js_min NaN _ = NaN"
| "js_min _ NaN = NaN"
| "js_min NInf _ = NInf"
| "js_min _ NInf = NInf"
| "js_min PInf b = b"
| "js_min a PInf = a"

text \<open>The comparisons \<open><\<close> and \<open><=\<close>, false whenever an operand is \<open>NaN\<close>.\<close>

fun js_lt :: "number \<Rightarrow> number \<Rightarrow> bool" where
  "js_lt (Fin a) (Fin b) = (a < b)"
| "js_lt NaN _ = False"
| "js_lt _ NaN = False"
| "js_lt _ NInf = False"
| "js_lt PInf _ = False"
| "js_lt NInf _ = True"
| "js_lt _ PInf = True"


text \<open>
  Modelled from the spec: \<open>clamp\<close>, imported from \<open>~/modules/utils\<close>, is not among the
  sources. The spec calls it a gamut clamp, "bounding a computed value to a range":
  the value if it lies between the bounds, the nearer bound otherwise.
\<close>

definition clamp :: "number \<Rightarrow> number \<Rightarrow> number \<Rightarrow> number" where
  "clamp v lo hi = js_min (js_max v lo) hi"


section \<open>Data model\<close>

text \<open>\<open>LCH\<close>: a colour as lightness, chroma and hue.\<close>

record LCH =
  l :: number
  c :: number
  h :: number

datatype SwatchVariant = Base | Deep | Neutral | Pastel | Subtle | Vibrant

datatype Scale = Dynamic | Fixed

text \<open>
  \<open>SwatchOptions\<close>: every option may be absent (\<open>None\<close>); the destructuring of
  \<open>swatch\<close> then takes the default.
\<close>

record SwatchOptions =
  format :: "string option"
  lightnessFactor :: "real option"
  maxLightness :: "real option"
  minLightness :: "real option"
  scale :: "Scale option"
  swatchSteps :: "real option"
  variant :: "SwatchVariant option"

fun withDefault :: "'a \<Rightarrow> 'a option \<Rightarrow> 'a" where
  "withDefault d None = d"
| "withDefault d (Some v) = v"

text \<open>
  An object with integer keys. The language enumerates such keys in ascending numeric
  order, whatever the order of insertion, so the object is the list of its entries in
  that order; an assignment to a key that is present replaces its value.
\<close>

type_synonym 'a obj = "(nat \<times> 'a) list"

fun obj_set :: "nat \<Rightarrow> 'a \<Rightarrow> 'a obj \<Rightarrow> 'a obj" where
  "obj_set k v [] = [(k, v)]"
| "obj_set k v ((k', v') # rest) =
     (if k = k' then (k, v) # rest
      else if k < k' then (k, v) # (k', v') # rest
      else (k', v') # obj_set k v rest)"

text \<open>An object literal assigns its properties from left to right.\<close>

definition obj_literal :: "(nat \<times> 'a) list \<Rightarrow> 'a obj" where
  "obj_literal kvs = foldl (\<lambda>acc (k, v). obj_set k v acc) [] kvs"

type_synonym Swatch = "string obj"

text \<open>
  The argument of \<open>swatch\<close> as the program meets it at run time, where the declared
  type \<open>string\<close> is not enforced.
\<close>

datatype JSValue = JSString string | JSOther

text \<open>
  Modelled from the spec: \<open>invariant\<close>, imported from \<open>~/modules/invariant\<close>, is not
  among the sources. By the spec a violated condition fails at once with an error of
  the kind named there: \<open>InvalidInput\<close> for the input, \<open>InvalidOptions\<close>, with the
  description of the violated constraint, for the options. A parser or classifier that
  cannot interpret the input fails with \<open>UnparseableColor\<close>, a formatter that cannot
  serialize with \<open>UnsupportedFormat\<close>.
\<close>

datatype error =
  InvalidInput
| InvalidOptions string
| UnparseableColor
| UnsupportedFormat


section \<open>Collaborators\<close>

text \<open>
  The parser, the classifier and the formatter are imported and not among the
  sources; the model takes them as parameters. A collaborator that throws returns
  \<open>None\<close>. Each call is recorded, in order, so that what the program asked of its
  collaborators before it returned or failed can be read off the result.
\<close>

record Collaborators =
  parseCSS :: "string \<Rightarrow> string \<Rightarrow> LCH option"
  isHex :: "string \<Rightarrow> bool"
  isNamedColor :: "string \<Rightarrow> bool"
  extractColorParts :: "string \<Rightarrow> string option"
  formatCSS :: "LCH \<Rightarrow> string \<Rightarrow> string option"

datatype call =
  ParseCSS string string
| IsHex string
| IsNamedColor string
| ExtractColorParts string
| FormatCSS LCH string

text \<open>
  Modelled from the spec: \<open>isString\<close>, imported from \<open>~/modules/validators\<close>, is not
  among the sources. By the spec the input "must be a non-empty textual value".
\<close>

definition isString :: "JSValue \<Rightarrow> bool" where
  "isString v = (case v of JSString s \<Rightarrow> s \<noteq> [] | JSOther \<Rightarrow> False)"


section \<open>shadeColor\<close>

definition shadeColor :: "LCH \<Rightarrow> number \<Rightarrow> LCH" where
  "shadeColor input lightness =
     (let chromaScale =
            (if c input = Fin 0 then Fin 1
             else js_mul (js_mul (Fin 4) lightness) (js_sub (Fin 1) lightness));
          chroma = js_mul (c input) chromaScale;
          adjustedChroma = clamp chroma (Fin 0) (Fin 0.4)
      in \<lparr>l = lightness, c = adjustedChroma, h = h input\<rparr>)"


section \<open>swatch\<close>

text \<open>The chroma multiplier of a variant (the lookup \<open>chromaScale\<close> of \<open>swatch\<close>).\<close>

fun variantChromaScale :: "SwatchVariant \<Rightarrow> real" where
  "variantChromaScale Base = 1"
| "variantChromaScale Deep = 0.8"
| "variantChromaScale Neutral = 0.5"
| "variantChromaScale Pastel = 0.3"
| "variantChromaScale Subtle = 0.2"
| "variantChromaScale Vibrant = 1.25"

text \<open>
  The working colour: the parsed colour after \<open>lch.l = 0.7\<close>, \<open>lch.c *= chromaScale\<close>
  and, for the deep variant, \<open>lch.l *= 0.7\<close>.
\<close>

definition workingColor :: "SwatchVariant \<Rightarrow> LCH \<Rightarrow> LCH" where
  "workingColor v parsed =
     (let lch1 = parsed\<lparr>l := Fin 0.7\<rparr>;
          lch2 = lch1\<lparr>c := js_mul (c lch1) (Fin (variantChromaScale v))\<rparr>
      in if v = Deep then lch2\<lparr>l := js_mul (l lch2) (Fin 0.7)\<rparr> else lch2)"

text \<open>
  \<open>colorFormat\<close>: \<open>isHex(input) || isNamedColor(input) ? 'hex' :
  extractColorParts(input).model\<close>, with the calls it makes.
\<close>

definition colorFormat :: "Collaborators \<Rightarrow> string \<Rightarrow> string option \<times> call list" where
  "colorFormat cs input =
     (if isHex cs input then (Some ''hex'', [IsHex input])
      else if isNamedColor cs input then (Some ''hex'', [IsHex input, IsNamedColor input])
      else (extractColorParts cs input,
            [IsHex input, IsNamedColor input, ExtractColorParts input]))"

text \<open>The lightness of step \<open>index\<close> on the dynamic scale.\<close>

definition lightness :: "real \<Rightarrow> real \<Rightarrow> real \<Rightarrow> real \<Rightarrow> nat \<Rightarrow> number" where
  "lightness steps maxL minL factor index =
     js_sub (Fin maxL)
       (js_mul (Fin (maxL - minL)) (js_pow (real index / (steps - 1)) factor))"

text \<open>The tone label of step \<open>index\<close>.\<close>

definition tone :: "real \<Rightarrow> nat \<Rightarrow> nat" where
  "tone steps index =
     (if steps = 11 then
        (if index = 0 then 50 else if index = 10 then 950 else index * 100)
      else
        (if index = 0 then 0 else if index = 1 then 50
         else if index = 20 then 1000 else (index - 1) * 50 + 50))"

text \<open>The loop of the dynamic scale, from \<open>index\<close> on.\<close>

function dynamicLoop ::
  "real \<Rightarrow> real \<Rightarrow> real \<Rightarrow> real \<Rightarrow> nat \<Rightarrow> number obj \<Rightarrow> number obj" where
  "dynamicLoop steps maxL minL factor index palette =
     (if real index < steps
      then dynamicLoop steps maxL minL factor (index + 1)
             (obj_set (tone steps index) (lightness steps maxL minL factor index) palette)
      else palette)"
  by pat_completeness auto
termination
proof (relation "measure (\<lambda>(steps, maxL, minL, factor, index, pal). nat \<lceil>steps\<rceil> - index)",
       goal_cases)
  case 1
  show ?case by simp
next
  case (2 steps maxL minL factor index pal)
  then have "int index < \<lceil>steps\<rceil>"
    by linarith
  then show ?case
    by simp
qed

declare dynamicLoop.simps [simp del]

text \<open>The tone table \<open>palette\<close>: tone label to lightness.\<close>

definition palette :: "Scale \<Rightarrow> real \<Rightarrow> real \<Rightarrow> real \<Rightarrow> real \<Rightarrow> number obj" where
  "palette sc steps maxL minL factor =
     (if sc = Dynamic then dynamicLoop steps maxL minL factor 0 []
      else if steps = 11 then
        obj_literal
          [(50, Fin 0.97), (100, Fin 0.92), (200, Fin 0.85), (300, Fin 0.78),
           (400, Fin 0.69), (500, Fin 0.57), (600, Fin 0.46), (700, Fin 0.35),
           (800, Fin 0.24), (900, Fin 0.18), (950, Fin 0.1)]
      else
        obj_literal
          [(0, Fin 0.99), (50, Fin 0.97), (100, Fin 0.94), (150, Fin 0.91),
           (200, Fin 0.87), (250, Fin 0.83), (300, Fin 0.78), (350, Fin 0.73),
           (400, Fin 0.67), (450, Fin 0.61), (500, Fin 0.55), (550, Fin 0.49),
           (600, Fin 0.43), (650, Fin 0.38), (700, Fin 0.33), (750, Fin 0.28),
           (800, Fin 0.23), (850, Fin 0.19), (900, Fin 0.15), (950, Fin 0.1),
           (1000, Fin 0.05)])"

text \<open>\<open>output\<close>: the shaded colour of every tone, before formatting.\<close>

definition outputOf :: "LCH \<Rightarrow> number obj \<Rightarrow> LCH obj" where
  "outputOf lch pal = foldl (\<lambda>acc (key, value). obj_set key (shadeColor lch value) acc) [] pal"

text \<open>
  The last \<open>reduce\<close>: every shaded colour is formatted in turn; a formatter that throws
  ends the run.
\<close>

fun formatAll ::
  "Collaborators \<Rightarrow> string \<Rightarrow> LCH obj \<Rightarrow> Swatch \<Rightarrow> call list \<Rightarrow> (error + Swatch) \<times> call list"
  where
  "formatAll cs fmt [] acc calls = (Inr acc, calls)"
| "formatAll cs fmt ((key, value) # rest) acc calls =
     (case formatCSS cs value fmt of
        None \<Rightarrow> (Inl UnsupportedFormat, calls @ [FormatCSS value fmt])
      | Some s \<Rightarrow> formatAll cs fmt rest (obj_set key s acc) (calls @ [FormatCSS value fmt]))"

text \<open>
  \<open>swatchWith\<close> is \<open>swatch\<close> with the derivation of the working colour as a parameter
  \<open>derive\<close>; \<open>swatch\<close> itself is \<open>swatchWith workingColor\<close>. The result is the returned
  swatch or the error, together with the calls made to the collaborators.
\<close>

definition swatchWith ::
  "(SwatchVariant \<Rightarrow> LCH \<Rightarrow> LCH) \<Rightarrow> Collaborators \<Rightarrow> JSValue \<Rightarrow> SwatchOptions
     \<Rightarrow> (error + Swatch) \<times> call list" where
  "swatchWith derive cs input options =
     (case input of
        JSOther \<Rightarrow> (Inl InvalidInput, [])
      | JSString s \<Rightarrow>
          if \<not> isString input then (Inl InvalidInput, [])
          else
            let factor = withDefault 1.5 (lightnessFactor options);
                maxL = withDefault 0.97 (maxLightness options);
                minL = withDefault 0.2 (minLightness options);
                sc = withDefault Dynamic (scale options);
                steps = withDefault 11 (swatchSteps options);
                v = withDefault Base (variant options)
            in
              if \<not> (maxL > minL \<and> maxL \<le> 1 \<and> minL \<ge> 0) then
                (Inl (InvalidOptions
                   ''maxLightness must be greater than minLightness and within the range [0, 1].''),
                 [])
              else if \<not> (steps = 11 \<or> steps = 21) then
                (Inl (InvalidOptions ''swatchSteps must be either 11 or 21.''), [])
              else
                (case parseCSS cs s ''oklch'' of
                   None \<Rightarrow> (Inl UnparseableColor, [ParseCSS s ''oklch''])
                 | Some parsed \<Rightarrow>
                     let lch = derive v parsed in
                     (case colorFormat cs s of
                        (None, calls) \<Rightarrow> (Inl UnparseableColor, ParseCSS s ''oklch'' # calls)
                      | (Some cf, calls) \<Rightarrow>
                          formatAll cs (case format options of None \<Rightarrow> cf | Some f \<Rightarrow> f)
                            (outputOf lch (palette sc steps maxL minL factor)) []
                            (ParseCSS s ''oklch'' # calls))))"

definition swatch ::
  "Collaborators \<Rightarrow> JSValue \<Rightarrow> SwatchOptions \<Rightarrow> (error + Swatch) \<times> call list" where
  "swatch = swatchWith workingColor"


text \<open>
  The tone table and the shaded colours that \<open>swatch\<close> builds, as functions of the
  options and of the parsed colour: the arguments are the destructured options, as in
  \<open>swatchWith\<close>.
\<close>

definition toneTable :: "SwatchOptions \<Rightarrow> number obj" where
  "toneTable options =
     palette (withDefault Dynamic (scale options)) (withDefault 11 (swatchSteps options))
       (withDefault 0.97 (maxLightness options)) (withDefault 0.2 (minLightness options))
       (withDefault 1.5 (lightnessFactor options))"

definition shades :: "SwatchOptions \<Rightarrow> LCH \<Rightarrow> LCH obj" where
  "shades options parsed =
     outputOf (workingColor (withDefault Base (variant options)) parsed) (toneTable options)"

text \<open>The two conditions that \<open>swatch\<close> checks on the destructured options.\<close>

definition validOptions :: "SwatchOptions \<Rightarrow> bool" where
  "validOptions options =
     (let maxL = withDefault 0.97 (maxLightness options);
          minL = withDefault 0.2 (minLightness options);
          steps = withDefault 11 (swatchSteps options)
      in (maxL > minL \<and> maxL \<le> 1 \<and> minL \<ge> 0) \<and> (steps = 11 \<or> steps = 21))"


section \<open>The program without the deep variant's lightness step\<close>

text \<open>
  \<open>workingColor\<close> with the statement \<open>if (variant === 'deep') { lch.l *= 0.7; }\<close> removed,
  and the program built on it.
\<close>

definition workingColorWithoutDeepLightness :: "SwatchVariant \<Rightarrow> LCH \<Rightarrow> LCH" where
  "workingColorWithoutDeepLightness v parsed =
     (let lch1 = parsed\<lparr>l := Fin 0.7\<rparr>
      in lch1\<lparr>c := js_mul (c lch1) (Fin (variantChromaScale v))\<rparr>)"

definition swatchWithoutDeepLightness ::
  "Collaborators \<Rightarrow> JSValue \<Rightarrow> SwatchOptions \<Rightarrow> (error + Swatch) \<times> call list" where
  "swatchWithoutDeepLightness = swatchWith workingColorWithoutDeepLightness"


section \<open>What the spec enumerates\<close>

text \<open>The tone labels of the spec, for 11 and for 21 steps.\<close>

definition specToneLabels :: "real \<Rightarrow> nat list" where
  "specToneLabels steps =
     (if steps = 11 then [50, 100, 200, 300, 400, 500, 600, 700, 800, 900, 950]
      else [0, 50, 100, 150, 200, 250, 300, 350, 400, 450, 500, 550, 600, 650, 700,
            750, 800, 850, 900, 950, 1000])"

text \<open>The static tone tables of the spec, for 11 and for 21 steps.\<close>

definition specFixedTable :: "real \<Rightarrow> (nat \<times> real) list" where
  "specFixedTable steps =
     (if steps = 11 then
        [(50, 0.97), (100, 0.92), (200, 0.85), (300, 0.78), (400, 0.69), (500, 0.57),
         (600, 0.46), (700, 0.35), (800, 0.24), (900, 0.18), (950, 0.10)]
      else
        [(0, 0.99), (50, 0.97), (100, 0.94), (150, 0.91), (200, 0.87), (250, 0.83),
         (300, 0.78), (350, 0.73), (400, 0.67), (450, 0.61), (500, 0.55), (550, 0.49),
         (600, 0.43), (650, 0.38), (700, 0.33), (750, 0.28), (800, 0.23), (850, 0.19),
         (900, 0.15), (950, 0.10), (1000, 0.05)])"


section \<open>Example collaborators and options\<close>

text \<open>
  Small stand-ins for the collaborators, for the concrete instances below: a parser
  that knows a grey and a blue, a classifier, and a formatter that knows two formats
  and answers with the format's name.
\<close>

definition grey :: LCH where
  "grey = \<lparr>l = Fin 0.6, c = Fin 0, h = Fin 0\<rparr>"

definition blue :: LCH where
  "blue = \<lparr>l = Fin 0.6, c = Fin 0.15, h = Fin 250\<rparr>"

definition exampleCollaborators :: Collaborators where
  "exampleCollaborators =
     \<lparr>parseCSS = (\<lambda>s space.
         if s = ''#808080'' then Some grey
         else if s = ''oklch(0.6 0.15 250)'' then Some blue
         else None),
       isHex = (\<lambda>s. take 1 s = ''#''),
       isNamedColor = (\<lambda>s. False),
       extractColorParts = (\<lambda>s. if take 6 s = ''oklch('' then Some ''oklch'' else None),
       formatCSS = (\<lambda>col fmt. if fmt = ''hex'' \<or> fmt = ''oklch'' then Some fmt else None)\<rparr>"

definition noOptions :: SwatchOptions where
  "noOptions =
     \<lparr>format = None, lightnessFactor = None, maxLightness = None, minLightness = None,
      scale = None, swatchSteps = None, variant = None\<rparr>"

definition fixedOptions :: SwatchOptions where
  "fixedOptions = noOptions\<lparr>scale := Some Fixed\<rparr>"


section \<open>Objects with ascending keys\<close>




lemma obj_set_member:
  "(t, x) \<in> set (obj_set k v acc) \<Longrightarrow> (t, x) = (k, v) \<or> (t, x) \<in> set acc"
  by (induction acc) (auto split: if_splits)

lemma foldl_obj_set_member:
  "(t, x) \<in> set (foldl (\<lambda>a (k, v). obj_set k (g v) a) acc xs) \<Longrightarrow>
   (t, x) \<in> set acc \<or> (\<exists>v. (t, v) \<in> set xs \<and> x = g v)"
proof (induction xs arbitrary: acc)
  case Nil
  then show ?case by simp
next
  case (Cons e xs)
  obtain k v where e: "e = (k, v)" by (cases e)
  from Cons.prems have "(t, x) \<in> set (foldl (\<lambda>a (k, v). obj_set k (g v) a) (obj_set k (g v) acc) xs)"
    by (simp add: e)
  from Cons.IH [OF this] show ?case
    by (auto simp: e dest: obj_set_member)
qed

lemma outputOf_member:
  "(t, col) \<in> set (outputOf lch pal) \<Longrightarrow> \<exists>v. (t, v) \<in> set pal \<and> col = shadeColor lch v"
  unfolding outputOf_def using foldl_obj_set_member [of t col "shadeColor lch" "[]" pal] by simp


lemma formatAll_not_InvalidOptions:
  "fst (formatAll cs fmt xs acc calls) \<noteq> Inl (InvalidOptions msg)"
  by (induction xs arbitrary: acc calls) (auto split: option.splits)


section \<open>The tone table\<close>



lemma palette_fixed: "steps = 11 \<or> steps = 21 \<Longrightarrow>
  palette Fixed steps mx mn f = map (\<lambda>(k, v). (k, Fin v)) (specFixedTable steps)"
  by (auto simp: palette_def obj_literal_def specFixedTable_def)



















section \<open>The dynamic curve in exact arithmetic\<close>

text \<open>
  For a positive factor the lightness of a step is a finite number, the power being
  the real power. In exact arithmetic the curve then starts at the maximum, ends at
  the minimum and falls strictly. These three facts rest on exact subtraction and do
  not carry over to doubles, where \<open>0.97 - (0.97 - 0.2)\<close> is not \<open>0.2\<close> and a small
  power is absorbed by the subtraction from the maximum.
\<close>

lemma js_pow_positive_factor:
  "0 \<le> x \<Longrightarrow> 0 < y \<Longrightarrow> js_pow x y = Fin (x powr y)"
  by (auto simp: js_pow_def)

lemma lightness_exact:
  assumes "0 < factor" and "1 < steps"
  shows "lightness steps maxL minL factor i
         = Fin (maxL - (maxL - minL) * (real i / (steps - 1)) powr factor)"
proof -
  have "0 \<le> real i / (steps - 1)"
    using assms(2) by simp
  from js_pow_positive_factor [OF this assms(1)] show ?thesis
    by (simp add: lightness_def)
qed

lemma dynamic_curve_exact:
  assumes "0 < factor" and "minL < maxL" and "steps = 11 \<or> steps = 21"
  shows "lightness steps maxL minL factor 0 = Fin maxL"
    and "real n = steps - 1 \<Longrightarrow> lightness steps maxL minL factor n = Fin minL"
    and "i < j \<Longrightarrow> real j < steps \<Longrightarrow>
         js_lt (lightness steps maxL minL factor j) (lightness steps maxL minL factor i)"
proof -
  from assms(3) have s: "1 < steps" by auto
  note ex = lightness_exact [OF assms(1) s]
  show "lightness steps maxL minL factor 0 = Fin maxL"
    by (simp add: ex)
  show "lightness steps maxL minL factor n = Fin minL" if "real n = steps - 1"
    using s by (simp add: ex that)
  show "js_lt (lightness steps maxL minL factor j) (lightness steps maxL minL factor i)"
    if "i < j" "real j < steps"
  proof -
    have "real i / (steps - 1) < real j / (steps - 1)"
      using that(1) s by (simp add: divide_strict_right_mono)
    moreover have "0 \<le> real i / (steps - 1)"
      using s by simp
    ultimately have "(real i / (steps - 1)) powr factor < (real j / (steps - 1)) powr factor"
      using assms(1) by (simp add: powr_less_mono2)
    then show ?thesis
      using assms(2) by (simp add: ex)
  qed
qed


section \<open>The paths through swatch\<close>

lemma swatchWith_invalid_input:
  "\<not> isString input \<Longrightarrow> swatchWith derive cs input options = (Inl InvalidInput, [])"
  by (cases input) (simp_all add: swatchWith_def isString_def)

lemma swatchWith_invalid_options:
  "isString input \<Longrightarrow> \<not> validOptions options \<Longrightarrow>
   \<exists>msg. swatchWith derive cs input options = (Inl (InvalidOptions msg), [])"
  by (cases input) (auto simp: swatchWith_def validOptions_def Let_def isString_def)

lemma swatchWith_valid:
  "isString (JSString s) \<Longrightarrow> validOptions options \<Longrightarrow>
   swatchWith derive cs (JSString s) options =
     (case parseCSS cs s ''oklch'' of
        None \<Rightarrow> (Inl UnparseableColor, [ParseCSS s ''oklch''])
      | Some parsed \<Rightarrow>
          (case colorFormat cs s of
             (None, calls) \<Rightarrow> (Inl UnparseableColor, ParseCSS s ''oklch'' # calls)
           | (Some cf, calls) \<Rightarrow>
               formatAll cs (case format options of None \<Rightarrow> cf | Some f \<Rightarrow> f)
                 (outputOf (derive (withDefault Base (variant options)) parsed) (toneTable options))
                 [] (ParseCSS s ''oklch'' # calls)))"
  by (simp add: swatchWith_def validOptions_def Let_def toneTable_def
      split: option.splits prod.splits)

text \<open>
  On a string that parses and is classified, with valid options, \<open>swatch\<close> formats
  exactly the colours of \<open>shades\<close>.
\<close>

lemma swatch_formats_shades:
  assumes "isString (JSString s)" and "validOptions options"
    and "parseCSS cs s ''oklch'' = Some parsed" and "colorFormat cs s = (Some cf, calls)"
  shows "swatch cs (JSString s) options =
           formatAll cs (case format options of None \<Rightarrow> cf | Some f \<Rightarrow> f)
             (shades options parsed) [] (ParseCSS s ''oklch'' # calls)"
  by (simp add: swatch_def swatchWith_valid [OF assms(1,2)] assms(3,4) shades_def)


lemma swatchWith_not_InvalidOptions:
  assumes "validOptions options"
  shows "fst (swatchWith derive cs input options) \<noteq> Inl (InvalidOptions msg)"
proof (cases "isString input")
  case False
  then show ?thesis by (simp add: swatchWith_invalid_input)
next
  case True
  then obtain s where s: "input = JSString s"
    by (cases input) (auto simp: isString_def)
  show ?thesis
    unfolding s swatchWith_valid [OF True [unfolded s] assms]
    by (simp add: formatAll_not_InvalidOptions split: option.splits prod.splits)
qed


section \<open>shadeColor\<close>




lemma workingColor_chroma:
  "c parsed = Fin x \<Longrightarrow> c (workingColor v parsed) = Fin (x * variantChromaScale v)"
  by (simp add: workingColor_def Let_def)

text \<open>\<open>shadeColor\<close> reads the chroma and the hue of its input, never the lightness.\<close>

lemma shadeColor_ignores_lightness:
  "shadeColor (workingColorWithoutDeepLightness v parsed) = shadeColor (workingColor v parsed)"
  by (rule ext) (simp add: shadeColor_def workingColor_def workingColorWithoutDeepLightness_def Let_def)

lemma outputOf_ignores_lightness:
  "outputOf (workingColorWithoutDeepLightness v parsed) pal = outputOf (workingColor v parsed) pal"
  by (simp add: outputOf_def shadeColor_ignores_lightness)


text \<open>The definitions that a concrete run unfolds.\<close>

lemmas run_defs = swatch_def swatchWith_def isString_def exampleCollaborators_def noOptions_def
  fixedOptions_def colorFormat_def palette_def outputOf_def obj_literal_def shadeColor_def
  workingColor_def clamp_def Let_def tone_def lightness_def js_pow_def toneTable_def shades_def
  validOptions_def signed_inf_def specToneLabels_def specFixedTable_def blue_def grey_def


section \<open>The claims\<close>







text \<open>
  C4. For a parsed colour of chroma 0, every variant, scale and number of steps, the
  chroma of every shaded colour is exactly 0.
\<close>

theorem achromatic_stays_achromatic:
  assumes "c parsed = Fin 0" and "(t, col) \<in> set (shades options parsed)"
  shows "c col = Fin 0"
proof -
  from assms(2) obtain v where
    col: "col = shadeColor (workingColor (withDefault Base (variant options)) parsed) v"
    unfolding shades_def by (blast dest: outputOf_member)
  show ?thesis
    unfolding col using workingColor_chroma [OF assms(1)]
    by (simp add: shadeColor_def clamp_def Let_def)
qed

theorem achromatic_stays_achromatic_witness:
  "c grey = Fin 0
   \<and> (50, \<lparr>l = Fin 0.97, c = Fin 0, h = Fin 0\<rparr>)
       \<in> set (shades (noOptions\<lparr>variant := Some Vibrant\<rparr>) grey)
   \<and> c \<lparr>l = Fin 0.97, c = Fin 0, h = Fin 0\<rparr> = Fin 0"
proof -
  have chroma: "c grey = Fin 0"
    by (simp add: grey_def)
  have member: "(50, \<lparr>l = Fin 0.97, c = Fin 0, h = Fin 0\<rparr>)
      \<in> set (shades (noOptions\<lparr>variant := Some Vibrant\<rparr>) grey)"
    by (simp add: run_defs dynamicLoop.simps)
  from achromatic_stays_achromatic [OF chroma member] chroma member show ?thesis
    by simp
qed

text \<open>
  C6. On the fixed scale the result of \<open>swatch\<close> does not depend on \<open>maxLightness\<close>,
  \<open>minLightness\<close> and \<open>lightnessFactor\<close>: two calls with the same input whose options
  differ in these three only, both passing the checks, return the same, and the tone
  table is the static table of the spec for the chosen number of steps.
\<close>

theorem fixed_scale_ignores_lightness_options:
  assumes "scale options = Some Fixed"
    and "options' = options\<lparr>lightnessFactor := f', maxLightness := mx', minLightness := mn'\<rparr>"
    and "validOptions options" and "validOptions options'"
  shows "swatch cs input options' = swatch cs input options
       \<and> toneTable options =
           map (\<lambda>(t, v). (t, Fin v)) (specFixedTable (withDefault 11 (swatchSteps options)))"
proof
  have tt: "toneTable options' = toneTable options"
    by (simp add: toneTable_def assms(1,2) palette_def)
  show "swatch cs input options' = swatch cs input options"
  proof (cases "isString input")
    case False
    then show ?thesis by (simp add: swatch_def swatchWith_invalid_input)
  next
    case True
    then obtain s where s: "input = JSString s"
      by (cases input) (auto simp: isString_def)
    have same: "format options' = format options" "variant options' = variant options"
      by (simp_all add: assms(2))
    show ?thesis
      unfolding s swatch_def swatchWith_valid [OF True [unfolded s] assms(3)]
        swatchWith_valid [OF True [unfolded s] assms(4)] tt same
      by (rule refl)
  qed
  from assms(3) have "withDefault 11 (swatchSteps options) = 11 \<or> withDefault 11 (swatchSteps options) = 21"
    by (simp add: validOptions_def Let_def)
  from palette_fixed [OF this] show "toneTable options =
      map (\<lambda>(t, v). (t, Fin v)) (specFixedTable (withDefault 11 (swatchSteps options)))"
    by (simp add: toneTable_def assms(1))
qed

theorem fixed_scale_ignores_lightness_options_witness:
  "scale fixedOptions = Some Fixed \<and> validOptions fixedOptions
   \<and> validOptions
       (fixedOptions\<lparr>lightnessFactor := Some 3, maxLightness := Some 0.9, minLightness := Some 0.1\<rparr>)
   \<and> swatch exampleCollaborators (JSString ''#808080'')
       (fixedOptions\<lparr>lightnessFactor := Some 3, maxLightness := Some 0.9, minLightness := Some 0.1\<rparr>)
     = swatch exampleCollaborators (JSString ''#808080'') fixedOptions
   \<and> toneTable fixedOptions =
       [(50, Fin 0.97), (100, Fin 0.92), (200, Fin 0.85), (300, Fin 0.78), (400, Fin 0.69),
        (500, Fin 0.57), (600, Fin 0.46), (700, Fin 0.35), (800, Fin 0.24), (900, Fin 0.18),
        (950, Fin 0.10)]"
proof -
  have fixed: "scale fixedOptions = Some Fixed"
    by (simp add: fixedOptions_def)
  have valid: "validOptions fixedOptions"
    by (simp add: run_defs)
  have valid': "validOptions
       (fixedOptions\<lparr>lightnessFactor := Some 3, maxLightness := Some 0.9, minLightness := Some 0.1\<rparr>)"
    by (simp add: run_defs)
  from fixed_scale_ignores_lightness_options [OF fixed refl valid valid', of exampleCollaborators
      "JSString ''#808080''"] fixed valid valid'
  show ?thesis
    by (simp add: specFixedTable_def fixedOptions_def noOptions_def)
qed

text \<open>
  C7, as amended. For every call whose input is a non-empty string: when the options,
  after defaulting, violate one of \<open>maxLightness > minLightness\<close>, \<open>maxLightness <= 1\<close>,
  \<open>minLightness >= 0\<close>, \<open>swatchSteps\<close> one of 11 and 21, \<open>swatch\<close> fails with an
  \<open>InvalidOptions\<close> error and has called no collaborator, so the input was not parsed;
  when they satisfy all of them, \<open>swatch\<close> raises no \<open>InvalidOptions\<close> error.
\<close>

theorem options_checked_before_parsing:
  assumes "isString input"
  shows "(\<not> validOptions options \<longrightarrow>
            (\<exists>msg. swatch cs input options = (Inl (InvalidOptions msg), [])))
       \<and> (validOptions options \<longrightarrow>
            (\<forall>msg. fst (swatch cs input options) \<noteq> Inl (InvalidOptions msg)))"
  unfolding swatch_def
  using swatchWith_invalid_options [OF assms] swatchWith_not_InvalidOptions by blast

theorem options_checked_before_parsing_witness:
  "isString (JSString ''#808080'')
   \<and> \<not> validOptions (noOptions\<lparr>swatchSteps := Some 12\<rparr>)
   \<and> (\<exists>msg. swatch exampleCollaborators (JSString ''#808080'') (noOptions\<lparr>swatchSteps := Some 12\<rparr>)
              = (Inl (InvalidOptions msg), []))
   \<and> validOptions noOptions
   \<and> (\<forall>msg. fst (swatch exampleCollaborators (JSString ''#808080'') noOptions)
              \<noteq> Inl (InvalidOptions msg))"
proof -
  have str: "isString (JSString ''#808080'')"
    by (simp add: isString_def)
  have bad: "\<not> validOptions (noOptions\<lparr>swatchSteps := Some 12\<rparr>)"
    by (simp add: run_defs)
  have good: "validOptions noOptions"
    by (simp add: run_defs)
  from options_checked_before_parsing [OF str, of "noOptions\<lparr>swatchSteps := Some 12\<rparr>"
      exampleCollaborators]
    options_checked_before_parsing [OF str, of noOptions exampleCollaborators] str bad good
  show ?thesis
    by simp
qed

text \<open>
  Without the restriction to non-empty strings the statement fails: with an empty
  string, or with a value that is no string, and 12 steps, the options violate the last
  condition and the error is \<open>InvalidInput\<close>.
\<close>

theorem options_checked_before_parsing_counterexample:
  "\<not> validOptions (noOptions\<lparr>swatchSteps := Some 12\<rparr>)
   \<and> swatch exampleCollaborators (JSString []) (noOptions\<lparr>swatchSteps := Some 12\<rparr>)
       = (Inl InvalidInput, [])
   \<and> swatch exampleCollaborators JSOther (noOptions\<lparr>swatchSteps := Some 12\<rparr>)
       = (Inl InvalidInput, [])"
  by (simp add: run_defs)

text \<open>
  C8. For an input that is not a non-empty string (a value that is no string, or the
  empty string), \<open>swatch\<close> fails with an \<open>InvalidInput\<close> error and has called no
  collaborator: the parser is never invoked.
\<close>

theorem invalid_input_rejected_before_parsing:
  assumes "input = JSOther \<or> input = JSString []"
  shows "swatch cs input options = (Inl InvalidInput, [])"
proof -
  from assms have "\<not> isString input"
    by (auto simp: isString_def)
  then show ?thesis
    unfolding swatch_def by (rule swatchWith_invalid_input)
qed

theorem invalid_input_rejected_before_parsing_witness:
  "(JSOther = JSOther \<or> JSOther = JSString [])
   \<and> swatch exampleCollaborators JSOther fixedOptions = (Inl InvalidInput, [])"
  using invalid_input_rejected_before_parsing [of JSOther exampleCollaborators fixedOptions]
  by simp

text \<open>
  C9. The deep variant's multiplication of the working lightness by 0.7 has no effect
  on the result: the program with that statement removed returns the same, and calls
  its collaborators alike, for every input and all options.
\<close>

theorem deep_lightness_step_has_no_effect:
  "swatchWithoutDeepLightness cs input options = swatch cs input options"
  by (simp add: swatchWithoutDeepLightness_def swatch_def swatchWith_def Let_def
      outputOf_ignores_lightness split: JSValue.splits option.splits prod.splits)

theorem deep_lightness_step_has_no_effect_witness:
  "swatchWithoutDeepLightness exampleCollaborators (JSString ''oklch(0.6 0.15 250)'')
     (fixedOptions\<lparr>variant := Some Deep\<rparr>)
   = swatch exampleCollaborators (JSString ''oklch(0.6 0.15 250)'')
       (fixedOptions\<lparr>variant := Some Deep\<rparr>)
   \<and> l (workingColor Deep blue) = Fin 0.49
   \<and> l (workingColorWithoutDeepLightness Deep blue) = Fin 0.7"
  using deep_lightness_step_has_no_effect [of exampleCollaborators
      "JSString ''oklch(0.6 0.15 250)''" "fixedOptions\<lparr>variant := Some Deep\<rparr>"]
  by (simp add: workingColor_def workingColorWithoutDeepLightness_def Let_def)




end
